theory Spec2Isabelle
  imports Main
begin

section \<open>JavaScript strings\<close>

text \<open>
  A JavaScript string is a sequence of UTF-16 code units and \<open>length\<close> counts code
  units. The model is \<^typ>\<open>string\<close> with one \<^typ>\<open>char\<close> per code unit, so it covers
  the strings whose code units are below 256 (Latin-1). On that range \<open>trim\<close> removes
  the code units 9 to 13, 32 and 160, and \<open>toLowerCase\<close> maps A-Z and the capital
  letters 192 to 222 (without the multiplication sign 215) to the letter 32 above.
\<close>

definition NL :: char where
  "NL = CHR 0x0A"

definition is_white_space :: "char \<Rightarrow> bool" where
  "is_white_space c \<longleftrightarrow> (of_char c :: nat) \<in> {9, 10, 11, 12, 13, 32, 160}"

definition trim :: "string \<Rightarrow> string" where
  "trim s = rev (dropWhile is_white_space (rev (dropWhile is_white_space s)))"





text \<open>\<open>parts.join(sep)\<close>.\<close>

fun join :: "string \<Rightarrow> string list \<Rightarrow> string" where
  "join sep [] = []"
| "join sep [x] = x"
| "join sep (x # y # ys) = x @ sep @ join sep (y # ys)"

text \<open>The truthiness of a value of type \<open>string | undefined\<close>: defined and not empty.\<close>

fun truthy :: "string option \<Rightarrow> bool" where
  "truthy None = False"
| "truthy (Some s) = (s \<noteq> [])"

section \<open>Context and prompt assembly\<close>

record Context =
  selectedText :: "string option"
  currentApp :: "string option"
  currentDirectory :: "string option"

definition RELEVANT_APPS :: "string set" where
  "RELEVANT_APPS =
     {''Terminal'', ''iTerm2'', ''iTerm'', ''Hyper'', ''Warp'', ''Alacritty'', ''kitty'',
      ''Code'', ''Cursor'', ''Zed'', ''Sublime Text'', ''Atom'', ''WebStorm'',
      ''IntelliJ IDEA'', ''PyCharm'', ''Visual Studio Code''}"

text \<open>\<open>parts.push(x)\<close>.\<close>

definition push :: "string list \<Rightarrow> string \<Rightarrow> string list" where
  "push parts x = parts @ [x]"

text \<open>The list \<open>parts\<close> of \<open>buildPrompt\<close> after its three conditional pushes.\<close>

definition buildPrompt_parts :: "Context \<Rightarrow> string list" where
  "buildPrompt_parts context =
     (let parts = [];
          parts = (if truthy (currentApp context) \<and> the (currentApp context) \<in> RELEVANT_APPS
                   then push parts (''Current app: '' @ the (currentApp context)) else parts);
          parts = (if truthy (currentDirectory context)
                   then push parts (''Current directory: '' @ the (currentDirectory context))
                   else parts);
          parts = (if truthy (selectedText context) \<and> length (the (selectedText context)) < 2000
                   then push parts (''Selected text:'' @ [NL] @ the (selectedText context))
                   else parts)
      in parts)"

definition buildPrompt :: "string \<Rightarrow> Context \<Rightarrow> string" where
  "buildPrompt userPrompt context =
     (let parts = buildPrompt_parts context
      in if length parts > 0
         then ''Context:'' @ [NL] @ join [NL] parts @ [NL, NL] @ ''Request: '' @ userPrompt
         else userPrompt)"

section \<open>History list\<close>

definition MAX_HISTORY :: nat where
  "MAX_HISTORY = 20"

text \<open>\<open>xs.slice(a, b)\<close> for indices that are not negative.\<close>

definition slice :: "'a list \<Rightarrow> nat \<Rightarrow> nat \<Rightarrow> 'a list" where
  "slice xs a b = take (b - a) (drop a xs)"

text \<open>The list that \<open>addToHistory\<close> computes from the stored history, before writing it.\<close>

definition updated_history :: "string \<Rightarrow> string list \<Rightarrow> string list" where
  "updated_history prompt history =
     (let filtered = filter (\<lambda>h. h \<noteq> prompt) history;
          updated = slice (prompt # filtered) 0 MAX_HISTORY
      in updated)"


section \<open>Effects\<close>

text \<open>
  A thrown value is an \<open>Error\<close> with its message, or something else. The text held by
  local storage under \<open>HISTORY_KEY\<close> is modelled by what \<open>JSON.parse\<close> makes of it: the
  array of strings it denotes (what \<open>JSON.stringify\<close> of that array wrote), a text that
  \<open>JSON.parse\<close> rejects with a \<open>SyntaxError\<close> of the given message, or the empty text.
\<close>

datatype thrown = Error_thrown string | Other_thrown

datatype stored_text = Json_array "string list" | Json_malformed string | Empty_text

datatype toast_style = Failure | Success

datatype script = AppScript | TerminalTitleScript | TerminalWindowScript | ITermPathScript

datatype content_block = TextBlock string | OtherBlock

datatype callback = Increment_listKey

datatype event =
    ShowToast toast_style string "string option"
  | NewClient
  | GetSelectedText
  | ExecSync script
  | MessagesCreate string
  | LocalStorage_getItem
  | LocalStorage_setItem "string list"
  | LocalStorage_removeItem
  | CloseMainWindow
  | Clipboard_copy string
  | Clipboard_paste string
  | ShowHUD string

text \<open>
  The state: the four React state variables of \<open>Command\<close>, the callbacks handed to
  \<open>setTimeout\<close> that have not run yet, the item of local storage, and the calls made to
  the outside so far, oldest first.
\<close>

record world =
  searchText :: string
  isLoading :: bool
  history :: "string list"
  listKey :: nat
  timers :: "callback list"
  storage :: "stored_text option"
  trace :: "event list"

text \<open>
  What the outside answers during one run: the selected text or the value
  \<open>getSelectedText\<close> throws, the output of \<open>osascript\<close> for each script (\<open>None\<close> when
  \<open>execSync\<close> throws), the content of the backend's message, and for every other call
  the value it throws, if any.
\<close>

record env =
  getSelectedText_result :: "thrown + string"
  osascript :: "script \<Rightarrow> string option"
  client_fails :: "thrown option"
  create_result :: "thrown + content_block list"
  getItem_fails :: "thrown option"
  setItem_fails :: "thrown option"
  removeItem_fails :: "thrown option"
  closeMainWindow_fails :: "thrown option"
  copy_fails :: "thrown option"
  paste_fails :: "thrown option"
  showHUD_fails :: "thrown option"

type_synonym 'a io = "world \<Rightarrow> (thrown + 'a) \<times> world"

definition io_return :: "'a \<Rightarrow> 'a io" where
  "io_return a w = (Inr a, w)"

definition io_throw :: "thrown \<Rightarrow> 'a io" where
  "io_throw e w = (Inl e, w)"

definition io_bind :: "'a io \<Rightarrow> ('a \<Rightarrow> 'b io) \<Rightarrow> 'b io" where
  "io_bind m f w = (case m w of (Inl e, w') \<Rightarrow> (Inl e, w') | (Inr a, w') \<Rightarrow> f a w')"

definition io_then :: "unit io \<Rightarrow> 'b io \<Rightarrow> 'b io" where
  "io_then m n = io_bind m (\<lambda>_. n)"

definition emit :: "event \<Rightarrow> unit io" where
  "emit ev w = (Inr (), w\<lparr>trace := trace w @ [ev]\<rparr>)"

text \<open>A call to the outside: it is made, then it returns or throws.\<close>

definition call :: "event \<Rightarrow> thrown option \<Rightarrow> unit io" where
  "call ev r = io_then (emit ev) (case r of None \<Rightarrow> io_return () | Some e \<Rightarrow> io_throw e)"

definition showToast :: "toast_style \<Rightarrow> string \<Rightarrow> string option \<Rightarrow> unit io" where
  "showToast style title message = emit (ShowToast style title message)"

definition setIsLoading :: "bool \<Rightarrow> unit io" where
  "setIsLoading b w = (Inr (), w\<lparr>isLoading := b\<rparr>)"

definition setHistory :: "string list \<Rightarrow> unit io" where
  "setHistory h w = (Inr (), w\<lparr>history := h\<rparr>)"

definition setSearchText :: "string \<Rightarrow> world \<Rightarrow> world" where
  "setSearchText s w = w\<lparr>searchText := s\<rparr>"

section \<open>Context probe\<close>

definition runAppleScript :: "env \<Rightarrow> script \<Rightarrow> string option io" where
  "runAppleScript env s =
     io_then (emit (ExecSync s)) (io_return (map_option trim (osascript env s)))"

definition gatherContext :: "env \<Rightarrow> Context io" where
  "gatherContext env =
     io_bind (io_then (emit GetSelectedText)
        (io_return (case getSelectedText_result env of Inl e \<Rightarrow> None | Inr s \<Rightarrow> Some s)))
     (\<lambda>sel. io_bind (runAppleScript env AppScript)
     (\<lambda>app.
        if app = Some ''Terminal''
        then io_bind (runAppleScript env TerminalTitleScript)
          (\<lambda>dir. if \<not> truthy dir
                  then io_bind (runAppleScript env TerminalWindowScript)
                    (\<lambda>dir'. io_return
                       \<lparr>selectedText = sel, currentApp = app, currentDirectory = dir'\<rparr>)
                  else io_return
                       \<lparr>selectedText = sel, currentApp = app, currentDirectory = dir\<rparr>)
        else if app = Some ''iTerm2'' \<or> app = Some ''iTerm''
        then io_bind (runAppleScript env ITermPathScript)
          (\<lambda>dir. io_return \<lparr>selectedText = sel, currentApp = app, currentDirectory = dir\<rparr>)
        else io_return \<lparr>selectedText = sel, currentApp = app, currentDirectory = None\<rparr>))"

section \<open>History store\<close>

definition getItem :: "env \<Rightarrow> stored_text option io" where
  "getItem env = io_then (call LocalStorage_getItem (getItem_fails env)) (\<lambda>w. (Inr (storage w), w))"

definition setItem :: "env \<Rightarrow> string list \<Rightarrow> unit io" where
  "setItem env xs =
     io_then (call (LocalStorage_setItem xs) (setItem_fails env))
       (\<lambda>w. (Inr (), w\<lparr>storage := Some (Json_array xs)\<rparr>))"

definition removeItem :: "env \<Rightarrow> unit io" where
  "removeItem env =
     io_then (call LocalStorage_removeItem (removeItem_fails env))
       (\<lambda>w. (Inr (), w\<lparr>storage := None\<rparr>))"

text \<open>\<open>stored ? JSON.parse(stored) : []\<close>: an absent item and the empty text are falsy.\<close>

definition getHistory :: "env \<Rightarrow> string list io" where
  "getHistory env =
     io_bind (getItem env)
       (\<lambda>stored. case stored of
            None \<Rightarrow> io_return []
          | Some Empty_text \<Rightarrow> io_return []
          | Some (Json_array xs) \<Rightarrow> io_return xs
          | Some (Json_malformed m) \<Rightarrow> io_throw (Error_thrown m))"

definition addToHistory :: "env \<Rightarrow> string \<Rightarrow> string list io" where
  "addToHistory env prompt =
     io_bind (getHistory env)
       (\<lambda>history. let updated = updated_history prompt history
                   in io_then (setItem env updated) (io_return updated))"

section \<open>Interaction controller\<close>

text \<open>\<open>message.content[0].type === "text" ? message.content[0].text.trim() : ""\<close>;
  reading \<open>type\<close> of \<open>undefined\<close> throws a \<open>TypeError\<close>.\<close>

fun block_command :: "content_block \<Rightarrow> string" where
  "block_command (TextBlock t) = trim t"
| "block_command OtherBlock = []"

definition first_command :: "content_block list \<Rightarrow> string io" where
  "first_command content =
     (case content of
        [] \<Rightarrow> io_throw (Error_thrown ''Cannot read properties of undefined (reading 'type')'')
      | b # _ \<Rightarrow> io_return (block_command b))"

definition messages_create :: "env \<Rightarrow> string \<Rightarrow> content_block list io" where
  "messages_create env fullPrompt =
     io_then (emit (MessagesCreate fullPrompt))
       (case create_result env of Inl e \<Rightarrow> io_throw e | Inr content \<Rightarrow> io_return content)"

text \<open>\<open>error instanceof Error ? error.message : "Unknown error"\<close>.\<close>

fun errorMessage :: "thrown \<Rightarrow> string" where
  "errorMessage (Error_thrown m) = m"
| "errorMessage Other_thrown = ''Unknown error''"

text \<open>The body of the \<open>try\<close> block of \<open>generateCommand\<close>.\<close>

definition generateCommand_try :: "env \<Rightarrow> string \<Rightarrow> bool \<Rightarrow> unit io" where
  "generateCommand_try env prompt copyOnly =
     io_then (call NewClient (client_fails env))
    (io_bind (gatherContext env)
    (\<lambda>context. let fullPrompt = buildPrompt prompt context in
     io_bind (messages_create env fullPrompt)
    (\<lambda>content.
     io_bind (first_command content)
    (\<lambda>command.
       if command = []
       then io_then (showToast Failure ''No command generated'' None) (setIsLoading False)
       else
         io_bind (addToHistory env prompt)
        (\<lambda>updatedHistory.
         io_then (setHistory updatedHistory)
        (io_then (call CloseMainWindow (closeMainWindow_fails env))
        (if copyOnly
         then io_then (call (Clipboard_copy command) (copy_fails env))
                (call (ShowHUD ''Command copied'') (showHUD_fails env))
         else io_then (call (Clipboard_paste command) (paste_fails env))
                (call (ShowHUD ''Command pasted'') (showHUD_fails env)))))))))"

definition generateCommand :: "env \<Rightarrow> string \<Rightarrow> bool \<Rightarrow> world \<Rightarrow> world" where
  "generateCommand env prompt copyOnly w =
     (if trim prompt = []
      then snd (showToast Failure ''Please enter a description'' None w)
      else
        (case generateCommand_try env prompt copyOnly (w\<lparr>isLoading := True\<rparr>) of
           (Inr _, w') \<Rightarrow> w'
         | (Inl error, w') \<Rightarrow>
             snd (io_then (showToast Failure ''Error'' (Some (errorMessage error)))
                    (setIsLoading False) w')))"

text \<open>The effect of \<open>useEffect\<close> at mount: \<open>getHistory().then(setHistory)\<close>; a rejection
  is not handled and the state stays as it is.\<close>

definition mount :: "env \<Rightarrow> world \<Rightarrow> world" where
  "mount env w =
     (case io_bind (getHistory env) setHistory w of (Inr _, w') \<Rightarrow> w' | (Inl e, w') \<Rightarrow> w')"

text \<open>The action "Use Prompt" of a history item: \<open>setSearchText(item)\<close>, and the increment
  of \<open>listKey\<close> is handed to \<open>setTimeout\<close>. \<open>run_timers\<close> runs the pending callbacks.\<close>

definition usePrompt :: "string \<Rightarrow> world \<Rightarrow> world" where
  "usePrompt item w = (setSearchText item w)\<lparr>timers := timers (setSearchText item w) @ [Increment_listKey]\<rparr>"

fun run_callback :: "callback \<Rightarrow> world \<Rightarrow> world" where
  "run_callback Increment_listKey w = w\<lparr>listKey := listKey w + 1\<rparr>"

definition run_timers :: "world \<Rightarrow> world" where
  "run_timers w = fold run_callback (timers w) (w\<lparr>timers := []\<rparr>)"

text \<open>The action "Clear History".\<close>

definition clearHistory :: "env \<Rightarrow> world \<Rightarrow> world" where
  "clearHistory env w =
     (case io_then (removeItem env)
             (io_then (setHistory []) (showToast Success ''History cleared'' None)) w of
        (Inr _, w') \<Rightarrow> w' | (Inl e, w') \<Rightarrow> w')"

section \<open>Observations on the calls made\<close>

definition events_since :: "world \<Rightarrow> world \<Rightarrow> event list" where
  "events_since w w' = drop (length (trace w)) (trace w')"

fun is_delivery :: "event \<Rightarrow> bool" where
  "is_delivery (Clipboard_copy c) = True"
| "is_delivery (Clipboard_paste c) = True"
| "is_delivery _ = False"

fun is_backend_call :: "event \<Rightarrow> bool" where
  "is_backend_call (MessagesCreate p) = True"
| "is_backend_call _ = False"

fun is_storage_call :: "event \<Rightarrow> bool" where
  "is_storage_call LocalStorage_getItem = True"
| "is_storage_call (LocalStorage_setItem xs) = True"
| "is_storage_call LocalStorage_removeItem = True"
| "is_storage_call _ = False"

fun is_failure_toast :: "event \<Rightarrow> bool" where
  "is_failure_toast (ShowToast Failure title message) = True"
| "is_failure_toast _ = False"

section \<open>Which context fields reach the prompt\<close>

text \<open>
  \<open>buildPrompt\<close> filters the raw context while it assembles the prompt. A field is kept
  when its labelled line is among the parts that \<open>buildPrompt\<close> joins; the filtered
  context holds the kept fields.
\<close>

definition app_kept :: "Context \<Rightarrow> bool" where
  "app_kept context =
     (case currentApp context of
        None \<Rightarrow> False
      | Some a \<Rightarrow> (''Current app: '' @ a) \<in> set (buildPrompt_parts context))"

definition directory_kept :: "Context \<Rightarrow> bool" where
  "directory_kept context =
     (case currentDirectory context of
        None \<Rightarrow> False
      | Some d \<Rightarrow> (''Current directory: '' @ d) \<in> set (buildPrompt_parts context))"

definition selection_kept :: "Context \<Rightarrow> bool" where
  "selection_kept context =
     (case selectedText context of
        None \<Rightarrow> False
      | Some s \<Rightarrow> (''Selected text:'' @ [NL] @ s) \<in> set (buildPrompt_parts context))"

definition kept_context :: "Context \<Rightarrow> Context" where
  "kept_context context =
     \<lparr>selectedText = (if selection_kept context then selectedText context else None),
      currentApp = (if app_kept context then currentApp context else None),
      currentDirectory = (if directory_kept context then currentDirectory context else None)\<rparr>"

text \<open>
  The layout of the user message over a filtered context, against which \<open>buildPrompt\<close>
  is compared. It follows the specification where a field is kept: each kept field is a
  labelled line, in the order application, directory, selection, under the header, and
  the request follows under its label. With no kept field it follows the code: the
  message is the request text alone.
\<close>

fun labelled_line :: "string \<Rightarrow> string option \<Rightarrow> string" where
  "labelled_line label None = []"
| "labelled_line label (Some v) = NL # label @ v"

definition context_block :: "Context \<Rightarrow> string" where
  "context_block filtered =
     labelled_line ''Current app: '' (currentApp filtered)
     @ labelled_line ''Current directory: '' (currentDirectory filtered)
     @ labelled_line (''Selected text:'' @ [NL]) (selectedText filtered)"

definition user_message :: "string \<Rightarrow> Context \<Rightarrow> string" where
  "user_message request filtered =
     (if currentApp filtered = None \<and> currentDirectory filtered = None
         \<and> selectedText filtered = None
      then request
      else ''Context:'' @ context_block filtered @ [NL, NL] @ ''Request: '' @ request)"



text \<open>The context and the probing calls of one run of \<open>gatherContext\<close>; neither depends
  on the state it starts in.\<close>

definition blank_world :: world where
  "blank_world =
     \<lparr>searchText = [], isLoading = False, history = [], listKey = 0, timers = [],
      storage = None, trace = []\<rparr>"

definition probe_context :: "env \<Rightarrow> Context" where
  "probe_context env =
     (case fst (gatherContext env blank_world) of
        Inr context \<Rightarrow> context
      | Inl e \<Rightarrow> \<lparr>selectedText = None, currentApp = None, currentDirectory = None\<rparr>)"

definition probe_events :: "env \<Rightarrow> event list" where
  "probe_events env = trace (snd (gatherContext env blank_world))"

section \<open>Actions and the history invariant\<close>

text \<open>
  The actions of a session: a submission (by paste or by copy), the recall of a history
  item, clearing the history, the mount of the component, typing in the search bar, and
  the run of the pending timer callbacks. Each action comes with the environment that
  answers its calls.
\<close>

datatype action =
    Submit env string bool
  | Recall string
  | Clear env
  | Mount env
  | Edit string
  | Tick

fun step :: "action \<Rightarrow> world \<Rightarrow> world" where
  "step (Submit env prompt copyOnly) w = generateCommand env prompt copyOnly w"
| "step (Recall item) w = usePrompt item w"
| "step (Clear env) w = clearHistory env w"
| "step (Mount env) w = mount env w"
| "step (Edit s) w = setSearchText s w"
| "step Tick w = run_timers w"

text \<open>The invariant of the data model: no duplicate entries, at most \<open>MAX_HISTORY\<close> of
  them, in the cached history and in the stored array.\<close>

definition bounded_distinct :: "string list \<Rightarrow> bool" where
  "bounded_distinct h \<longleftrightarrow> distinct h \<and> length h \<le> MAX_HISTORY"

definition history_invariant :: "world \<Rightarrow> bool" where
  "history_invariant w \<longleftrightarrow>
     bounded_distinct (history w)
     \<and> (case storage w of Some (Json_array xs) \<Rightarrow> bounded_distinct xs | _ \<Rightarrow> True)"

section \<open>A concrete run\<close>

text \<open>
  An environment in which nothing is selected, the previous application is Terminal with
  no custom tab title and a window named after the directory, the backend answers with
  one text block, and the write to local storage fails; and a state with three entries
  of history.
\<close>

definition example_env :: env where
  "example_env =
     \<lparr>getSelectedText_result = Inl (Error_thrown ''Unable to get selected text''),
      osascript = (\<lambda>s. case s of
          AppScript \<Rightarrow> Some (''Terminal'' @ [NL])
        | TerminalTitleScript \<Rightarrow> Some [NL]
        | TerminalWindowScript \<Rightarrow> Some (''~/project'' @ [NL])
        | ITermPathScript \<Rightarrow> None),
      client_fails = None,
      create_result = Inr [TextBlock ('' ls -la'' @ [NL])],
      getItem_fails = None,
      setItem_fails = Some (Error_thrown ''Storage write failed''),
      removeItem_fails = None,
      closeMainWindow_fails = None,
      copy_fails = None,
      paste_fails = None,
      showHUD_fails = None\<rparr>"

definition example_world :: world where
  "example_world =
     \<lparr>searchText = ''list files'', isLoading = False, history = [''A'', ''B'', ''C''],
      listKey = 0, timers = [], storage = Some (Json_array [''A'', ''B'', ''C'']),
      trace = []\<rparr>"

definition full_history :: "string list" where
  "full_history =
     [''e1'', ''e2'', ''e3'', ''e4'', ''e5'', ''e6'', ''e7'', ''e8'', ''e9'', ''e10'',
      ''e11'', ''e12'', ''e13'', ''e14'', ''e15'', ''e16'', ''e17'', ''e18'', ''e19'', ''e20'']"

section \<open>Relevance filtering and prompt assembly\<close>

lemma empty_not_relevant: "[] \<notin> RELEVANT_APPS"
  by (simp add: RELEVANT_APPS_def)

lemma buildPrompt_parts_eq:
  "buildPrompt_parts c =
     (case currentApp c of
        Some a \<Rightarrow> if a \<in> RELEVANT_APPS then [''Current app: '' @ a] else []
      | None \<Rightarrow> [])
   @ (case currentDirectory c of
        Some d \<Rightarrow> if d \<noteq> [] then [''Current directory: '' @ d] else []
      | None \<Rightarrow> [])
   @ (case selectedText c of
        Some s \<Rightarrow> if s \<noteq> [] \<and> length s < 2000 then [''Selected text:'' @ [NL] @ s] else []
      | None \<Rightarrow> [])"
  using empty_not_relevant
  by (auto simp: buildPrompt_parts_def push_def Let_def split: option.splits)

text \<open>The three labels differ, so a labelled line among the parts comes from its own
  field only.\<close>

lemma app_kept_iff: "app_kept c \<longleftrightarrow> (\<exists>a. currentApp c = Some a \<and> a \<in> RELEVANT_APPS)"
  by (auto simp: app_kept_def buildPrompt_parts_eq split: option.splits if_splits)

lemma directory_kept_iff:
  "directory_kept c \<longleftrightarrow> (\<exists>d. currentDirectory c = Some d \<and> d \<noteq> [])"
  by (auto simp: directory_kept_def buildPrompt_parts_eq split: option.splits if_splits)

lemma selection_kept_iff:
  "selection_kept c \<longleftrightarrow> (\<exists>s. selectedText c = Some s \<and> s \<noteq> [] \<and> length s < 2000)"
  by (auto simp: selection_kept_def buildPrompt_parts_eq split: option.splits if_splits)

lemma kept_context_fields:
  "currentApp (kept_context c) =
     (case currentApp c of Some a \<Rightarrow> if a \<in> RELEVANT_APPS then Some a else None | None \<Rightarrow> None)"
  "currentDirectory (kept_context c) =
     (case currentDirectory c of Some d \<Rightarrow> if d \<noteq> [] then Some d else None | None \<Rightarrow> None)"
  "selectedText (kept_context c) =
     (case selectedText c of
        Some s \<Rightarrow> if s \<noteq> [] \<and> length s < 2000 then Some s else None
      | None \<Rightarrow> None)"
  by (auto simp: kept_context_def app_kept_iff directory_kept_iff selection_kept_iff
        split: option.splits)

lemma scenario_B:
  "buildPrompt ''grep for TODOs''
     \<lparr>selectedText = None, currentApp = Some ''Terminal'', currentDirectory = Some ''~/project''\<rparr>
   = ''Context:'' @ [NL] @ ''Current app: Terminal'' @ [NL] @ ''Current directory: ~/project''
     @ [NL, NL] @ ''Request: grep for TODOs''"
  by (simp add: buildPrompt_def buildPrompt_parts_def push_def RELEVANT_APPS_def)

text \<open>
  Claim C1, as the code has it. For every request text and raw context, \<open>buildPrompt\<close>
  returns the user message of the kept fields: under the header \<open>Context:\<close> the kept
  application, the kept directory and the kept selection as labelled lines in this
  order, then an empty line and the request text after the label \<open>Request: \<close>. With all
  three fields kept the message is the string spelled out below; scenario B of the
  specification is the case of Terminal and a directory. When no field is kept there is
  no header and the message is the request text itself, without the label.
\<close>

theorem buildPrompt_user_message:
  "buildPrompt request ctx = user_message request (kept_context ctx)
   \<and> (a \<in> RELEVANT_APPS \<and> d \<noteq> [] \<and> s \<noteq> [] \<and> length s < 2000 \<longrightarrow>
        buildPrompt request
          \<lparr>selectedText = Some s, currentApp = Some a, currentDirectory = Some d\<rparr>
        = ''Context:'' @ [NL] @ ''Current app: '' @ a @ [NL] @ ''Current directory: '' @ d
          @ [NL] @ ''Selected text:'' @ [NL] @ s @ [NL, NL] @ ''Request: '' @ request)
   \<and> (\<not> app_kept ctx \<and> \<not> directory_kept ctx \<and> \<not> selection_kept ctx \<longrightarrow>
        buildPrompt request ctx = request)
   \<and> buildPrompt ''grep for TODOs''
        \<lparr>selectedText = None, currentApp = Some ''Terminal'',
         currentDirectory = Some ''~/project''\<rparr>
      = ''Context:'' @ [NL] @ ''Current app: Terminal'' @ [NL]
        @ ''Current directory: ~/project'' @ [NL, NL] @ ''Request: grep for TODOs''"
proof -
  have main: "buildPrompt request c = user_message request (kept_context c)" for c
    by (auto simp: buildPrompt_def user_message_def context_block_def buildPrompt_parts_eq
          kept_context_fields split: option.splits)
  have all_kept: "a \<in> RELEVANT_APPS \<and> d \<noteq> [] \<and> s \<noteq> [] \<and> length s < 2000 \<longrightarrow>
        buildPrompt request
          \<lparr>selectedText = Some s, currentApp = Some a, currentDirectory = Some d\<rparr>
        = ''Context:'' @ [NL] @ ''Current app: '' @ a @ [NL] @ ''Current directory: '' @ d
          @ [NL] @ ''Selected text:'' @ [NL] @ s @ [NL, NL] @ ''Request: '' @ request"
    by (simp add: buildPrompt_def buildPrompt_parts_eq)
  have none_kept: "\<not> app_kept ctx \<and> \<not> directory_kept ctx \<and> \<not> selection_kept ctx
      \<longrightarrow> buildPrompt request ctx = request"
    by (simp add: main user_message_def kept_context_def)
  show ?thesis
    using main[of ctx] all_kept none_kept scenario_B by blast
qed

text \<open>The theorem at a context of which nothing is kept (an application outside the
  list, an empty selection) and at one of which everything is kept.\<close>

theorem buildPrompt_user_message_witness:
  "buildPrompt ''find large files''
     \<lparr>selectedText = Some [], currentApp = Some ''Safari'', currentDirectory = None\<rparr>
   = ''find large files''
   \<and> buildPrompt ''find large files''
       \<lparr>selectedText = Some ''TODO'', currentApp = Some ''Terminal'',
        currentDirectory = Some ''~/project''\<rparr>
     = ''Context:'' @ [NL] @ ''Current app: Terminal'' @ [NL] @ ''Current directory: ~/project''
       @ [NL] @ ''Selected text:'' @ [NL] @ ''TODO'' @ [NL, NL] @ ''Request: find large files''"
proof -
  let ?c = "\<lparr>selectedText = Some [], currentApp = Some ''Safari'', currentDirectory = None\<rparr>"
  have none: "\<not> app_kept ?c \<and> \<not> directory_kept ?c \<and> \<not> selection_kept ?c"
    by (simp add: app_kept_iff directory_kept_iff selection_kept_iff RELEVANT_APPS_def)
  have all: "''Terminal'' \<in> RELEVANT_APPS \<and> ''~/project'' \<noteq> [] \<and> ''TODO'' \<noteq> []
      \<and> length ''TODO'' < 2000"
    by (simp add: RELEVANT_APPS_def)
  note inst = buildPrompt_user_message
      [of "''find large files''" ?c "''Terminal''" "''~/project''" "''TODO''"]
  have first: "buildPrompt ''find large files'' ?c = ''find large files''"
    using inst none by blast
  have second: "buildPrompt ''find large files''
       \<lparr>selectedText = Some ''TODO'', currentApp = Some ''Terminal'',
        currentDirectory = Some ''~/project''\<rparr>
     = ''Context:'' @ [NL] @ ''Current app: '' @ ''Terminal'' @ [NL] @ ''Current directory: ''
       @ ''~/project'' @ [NL] @ ''Selected text:'' @ [NL] @ ''TODO'' @ [NL, NL]
       @ ''Request: '' @ ''find large files''"
    using inst all by blast
  show ?thesis
    unfolding first second by simp
qed

text \<open>Scenario A as the specification states it fails: with no context the message is
  not \<open>Request: find large files\<close>.\<close>

theorem buildPrompt_no_context_counterexample:
  "buildPrompt ''find large files''
     \<lparr>selectedText = None, currentApp = None, currentDirectory = None\<rparr>
   \<noteq> ''Request: find large files''"
  by (simp add: buildPrompt_def buildPrompt_parts_def)

text \<open>
  Claim C8, as the code has it. The application is kept if and only if it is in
  \<open>RELEVANT_APPS\<close>; the directory is kept if and only if it is present and not the empty
  string; the selection is kept only if it is shorter than 2000 code units. Whether a
  field is kept does not change when the other two fields are set to anything else.
\<close>

theorem relevance_filter_rules:
  "(app_kept ctx \<longleftrightarrow> (\<exists>a. currentApp ctx = Some a \<and> a \<in> RELEVANT_APPS))
   \<and> (directory_kept ctx \<longleftrightarrow> (\<exists>d. currentDirectory ctx = Some d \<and> d \<noteq> []))
   \<and> (selection_kept ctx \<longrightarrow> (\<exists>s. selectedText ctx = Some s \<and> length s < 2000))
   \<and> app_kept (ctx\<lparr>selectedText := s', currentDirectory := d'\<rparr>) = app_kept ctx
   \<and> directory_kept (ctx\<lparr>selectedText := s', currentApp := a'\<rparr>) = directory_kept ctx
   \<and> selection_kept (ctx\<lparr>currentApp := a', currentDirectory := d'\<rparr>)
       = selection_kept ctx"
  by (simp add: app_kept_iff directory_kept_iff selection_kept_iff) blast

text \<open>The theorem at a context whose selection is kept, with a selection of 2000 code
  units and no directory put in place of the other fields.\<close>

theorem relevance_filter_rules_witness:
  "selection_kept
     \<lparr>selectedText = Some ''TODO'', currentApp = Some ''Terminal'',
      currentDirectory = Some ''~/project''\<rparr>
   \<and> length ''TODO'' < 2000
   \<and> app_kept
       \<lparr>selectedText = Some (replicate 2000 CHR ''x''), currentApp = Some ''Terminal'',
        currentDirectory = None\<rparr>
   \<and> \<not> selection_kept
       \<lparr>selectedText = Some (replicate 2000 CHR ''x''), currentApp = Some ''Terminal'',
        currentDirectory = None\<rparr>"
proof -
  let ?c = "\<lparr>selectedText = Some ''TODO'', currentApp = Some ''Terminal'',
      currentDirectory = Some ''~/project''\<rparr>"
  have kept: "selection_kept ?c"
    by (simp add: selection_kept_iff)
  have app: "app_kept ?c"
    by (simp add: app_kept_iff RELEVANT_APPS_def)
  have long: "\<not> selection_kept
       \<lparr>selectedText = Some (replicate 2000 CHR ''x''), currentApp = Some ''Terminal'',
        currentDirectory = None\<rparr>"
    by (simp add: selection_kept_iff)
  show ?thesis
    using relevance_filter_rules
        [where ctx = ?c and s' = "Some (replicate 2000 CHR ''x'')" and d' = None
           and a' = "Some ''Terminal''"]
      kept app long
    by simp
qed

text \<open>A directory that is present and the empty string is not kept, so "kept whenever
  present" fails; \<open>runAppleScript\<close> returns the empty string when the script prints
  nothing.\<close>

theorem empty_directory_present_not_kept_counterexample:
  "currentDirectory
     \<lparr>selectedText = None, currentApp = Some ''iTerm2'', currentDirectory = Some []\<rparr> \<noteq> None
   \<and> \<not> directory_kept
       \<lparr>selectedText = None, currentApp = Some ''iTerm2'', currentDirectory = Some []\<rparr>"
  by (simp add: directory_kept_def buildPrompt_parts_def push_def RELEVANT_APPS_def)


section \<open>History: recording\<close>

lemmas io_defs = io_bind_def io_then_def io_return_def io_throw_def emit_def call_def
  showToast_def setIsLoading_def setHistory_def

lemma getHistory_world:
  "snd (getHistory env w) = w\<lparr>trace := trace w @ [LocalStorage_getItem]\<rparr>"
  by (simp add: getHistory_def getItem_def io_defs split: option.splits stored_text.splits)

lemma getHistory_value:
  "storage w' = storage w \<Longrightarrow> fst (getHistory env w') = fst (getHistory env w)"
  by (simp add: getHistory_def getItem_def io_defs split: option.splits stored_text.splits)

lemma getHistory_run:
  "getHistory env w = (fst (getHistory env w), w\<lparr>trace := trace w @ [LocalStorage_getItem]\<rparr>)"
  by (metis getHistory_world prod.collapse)

lemma updated_history_eq:
  "updated_history entry h = take MAX_HISTORY (entry # removeAll entry h)"
proof -
  have "filter (\<lambda>x. x \<noteq> entry) h = removeAll entry h"
    by (induction h) auto
  then show ?thesis by (simp add: updated_history_def slice_def)
qed

lemma updated_history_length: "length (updated_history entry h) \<le> MAX_HISTORY"
  by (simp add: updated_history_eq)

lemma updated_history_distinct: "distinct h \<Longrightarrow> distinct (updated_history entry h)"
  by (simp add: updated_history_eq distinct_removeAll)

lemma updated_history_count: "count_list (updated_history entry h) entry = 1"
proof -
  have "updated_history entry h = entry # take 19 (removeAll entry h)"
    by (simp add: updated_history_eq MAX_HISTORY_def take_Cons')
  moreover have "entry \<notin> set (take 19 (removeAll entry h))"
    using in_set_takeD by fastforce
  ultimately show ?thesis by (simp add: count_list_0_iff)
qed

lemma updated_history_full:
  assumes "entry \<notin> set h" and "length h = MAX_HISTORY"
  shows "updated_history entry h = entry # butlast h"
proof -
  have "removeAll entry h = h" using assms(1) by simp
  then have "updated_history entry h = entry # take 19 h"
    by (simp add: updated_history_eq MAX_HISTORY_def take_Cons')
  moreover have "take 19 h = butlast h"
    using assms(2) by (simp add: butlast_conv_take MAX_HISTORY_def)
  ultimately show ?thesis by simp
qed

lemma updated_history_promote:
  assumes "distinct h" and "entry \<in> set h" and "length h \<le> MAX_HISTORY"
  shows "length (updated_history entry h) = length h"
proof -
  have "length (removeAll entry h) = length h - 1"
    using assms(1,2) by (simp add: distinct_remove1_removeAll[symmetric] length_remove1)
  moreover have "length h > 0" using assms(2) by (cases h) auto
  ultimately show ?thesis using assms(3)
    by (simp add: updated_history_eq)
qed

lemma updated_history_ABC:
  "a \<noteq> b \<Longrightarrow> c \<noteq> b \<Longrightarrow> updated_history b [a, b, c] = [b, a, c]"
  by (simp add: updated_history_def slice_def MAX_HISTORY_def)

lemma addToHistory_run:
  assumes "fst (getHistory env w) = Inr h"
  shows "addToHistory env entry w =
     (case setItem_fails env of
        None \<Rightarrow>
          (Inr (updated_history entry h),
           w\<lparr>trace := trace w
                @ [LocalStorage_getItem, LocalStorage_setItem (updated_history entry h)],
             storage := Some (Json_array (updated_history entry h))\<rparr>)
      | Some e \<Rightarrow>
          (Inl e,
           w\<lparr>trace := trace w
                @ [LocalStorage_getItem, LocalStorage_setItem (updated_history entry h)]\<rparr>))"
proof -
  have "getHistory env w = (Inr h, w\<lparr>trace := trace w @ [LocalStorage_getItem]\<rparr>)"
    using getHistory_run[of env w] assms by simp
  then show ?thesis
    by (simp add: addToHistory_def setItem_def io_defs Let_def split: option.splits)
qed

lemma bounded_distinct_updated:
  "bounded_distinct h \<Longrightarrow> bounded_distinct (updated_history entry h)"
  by (simp add: bounded_distinct_def updated_history_distinct updated_history_length)

lemma getHistory_invariant:
  "history_invariant w \<Longrightarrow> fst (getHistory env w) = Inr h \<Longrightarrow> bounded_distinct h"
  by (auto simp: history_invariant_def getHistory_def getItem_def io_defs bounded_distinct_def
        split: option.splits stored_text.splits)

text \<open>
  Claim C2. When the stored history reads as \<open>h\<close> and the write succeeds, \<open>addToHistory\<close>
  returns and stores the list made of the entry followed by \<open>h\<close> without every
  occurrence of the entry, cut to \<open>MAX_HISTORY = 20\<close> entries. The result has at most 20
  entries and holds the recorded entry exactly once, whatever \<open>h\<close> is. It has no
  duplicates when \<open>h\<close> has none; this is so in every state that satisfies the history
  invariant, and the state after the write satisfies it again (the invariant holds in the
  initial state and is kept by every action, see \<open>reachable_history_invariant\<close> below).
  Recording an entry of a duplicate-free history within capacity keeps its length;
  recording a new entry into a history of 20 entries drops the last one; recording \<open>B\<close>
  into \<open>[A, B, C]\<close> gives \<open>[B, A, C]\<close>.
\<close>

theorem addToHistory_record:
  assumes "fst (getHistory env w) = Inr h" and "setItem_fails env = None"
  shows "addToHistory env entry w =
           (Inr (updated_history entry h),
            w\<lparr>trace := trace w
                 @ [LocalStorage_getItem, LocalStorage_setItem (updated_history entry h)],
              storage := Some (Json_array (updated_history entry h))\<rparr>)
         \<and> updated_history entry h = take 20 (entry # removeAll entry h)
         \<and> length (updated_history entry h) \<le> 20
         \<and> count_list (updated_history entry h) entry = 1
         \<and> (distinct h \<longrightarrow> distinct (updated_history entry h))
         \<and> (history_invariant w \<longrightarrow>
               distinct (updated_history entry h)
               \<and> history_invariant (snd (addToHistory env entry w)))
         \<and> (distinct h \<and> entry \<in> set h \<and> length h \<le> 20 \<longrightarrow>
               length (updated_history entry h) = length h)
         \<and> (entry \<notin> set h \<and> length h = 20 \<longrightarrow>
               updated_history entry h = entry # butlast h)
         \<and> (a \<noteq> b \<and> c \<noteq> b \<longrightarrow> updated_history b [a, b, c] = [b, a, c])"
proof -
  have run: "addToHistory env entry w =
           (Inr (updated_history entry h),
            w\<lparr>trace := trace w
                 @ [LocalStorage_getItem, LocalStorage_setItem (updated_history entry h)],
              storage := Some (Json_array (updated_history entry h))\<rparr>)"
    using addToHistory_run[OF assms(1), of entry] assms(2) by simp
  have eq: "updated_history entry h = take 20 (entry # removeAll entry h)"
    using updated_history_eq[of entry h] by (simp add: MAX_HISTORY_def)
  have len: "length (updated_history entry h) \<le> 20"
    using updated_history_length[of entry h] by (simp add: MAX_HISTORY_def)
  have promote: "distinct h \<and> entry \<in> set h \<and> length h \<le> 20 \<longrightarrow>
               length (updated_history entry h) = length h"
    using updated_history_promote[of h entry] by (simp add: MAX_HISTORY_def)
  have full: "entry \<notin> set h \<and> length h = 20 \<longrightarrow> updated_history entry h = entry # butlast h"
    using updated_history_full[of entry h] by (simp add: MAX_HISTORY_def)
  have inv: "history_invariant w \<longrightarrow>
               distinct (updated_history entry h)
               \<and> history_invariant (snd (addToHistory env entry w))"
  proof
    assume w: "history_invariant w"
    then have "bounded_distinct (updated_history entry h)"
      using getHistory_invariant[OF w assms(1)] bounded_distinct_updated by blast
    then show "distinct (updated_history entry h)
               \<and> history_invariant (snd (addToHistory env entry w))"
      unfolding run using w by (simp add: history_invariant_def bounded_distinct_def)
  qed
  show ?thesis
    using run eq len promote full inv updated_history_count[of entry h]
      updated_history_distinct[of h entry] updated_history_ABC[of a b c]
    by blast
qed

text \<open>The theorem at the history \<open>[A, B, C]\<close> with the entry \<open>B\<close>, and at a history of 20
  entries with a new one.\<close>

theorem addToHistory_record_witness:
  "fst (addToHistory (example_env\<lparr>setItem_fails := None\<rparr>) ''B'' example_world)
     = Inr [''B'', ''A'', ''C'']
   \<and> storage (snd (addToHistory (example_env\<lparr>setItem_fails := None\<rparr>) ''B'' example_world))
     = Some (Json_array [''B'', ''A'', ''C''])
   \<and> history_invariant example_world
   \<and> history_invariant
       (snd (addToHistory (example_env\<lparr>setItem_fails := None\<rparr>) ''B'' example_world))
   \<and> length (updated_history ''B'' [''A'', ''B'', ''C'']) = length [''A'', ''B'', ''C'']
   \<and> length full_history = 20
   \<and> updated_history ''e21'' full_history = ''e21'' # butlast full_history
   \<and> last (updated_history ''e21'' full_history) = ''e19''
   \<and> distinct (updated_history ''e21'' full_history)"
proof -
  let ?env = "example_env\<lparr>setItem_fails := None\<rparr>"
  let ?w = "example_world\<lparr>storage := Some (Json_array full_history)\<rparr>"
  have read1: "fst (getHistory ?env example_world) = Inr [''A'', ''B'', ''C'']"
    by (simp add: getHistory_def getItem_def io_defs example_env_def example_world_def)
  have read2: "fst (getHistory ?env ?w) = Inr full_history"
    by (simp add: getHistory_def getItem_def io_defs example_env_def example_world_def)
  have ok: "setItem_fails ?env = None" by simp
  have facts: "distinct full_history" "''e21'' \<notin> set full_history" "length full_history = 20"
    by (simp_all add: full_history_def)
  have inv0: "history_invariant example_world"
    by (simp add: history_invariant_def bounded_distinct_def example_world_def MAX_HISTORY_def)
  note abc = addToHistory_record[OF read1 ok, of "''B''" "''A''" "''B''" "''C''"]
  note full = addToHistory_record[OF read2 ok, of "''e21''" "''A''" "''B''" "''C''"]
  have upd: "updated_history ''B'' [''A'', ''B'', ''C''] = [''B'', ''A'', ''C'']"
    using abc by simp
  have one: "addToHistory ?env ''B'' example_world =
      (Inr [''B'', ''A'', ''C''],
       example_world\<lparr>trace := trace example_world
            @ [LocalStorage_getItem, LocalStorage_setItem [''B'', ''A'', ''C'']],
          storage := Some (Json_array [''B'', ''A'', ''C''])\<rparr>)"
    using abc unfolding upd by blast
  have inv1: "history_invariant (snd (addToHistory ?env ''B'' example_world))"
    using abc inv0 by blast
  have within: "distinct [''A'', ''B'', ''C''] \<and> ''B'' \<in> set [''A'', ''B'', ''C'']
      \<and> length [''A'', ''B'', ''C''] \<le> 20"
    by simp
  have same_length:
    "length (updated_history ''B'' [''A'', ''B'', ''C'']) = length [''A'', ''B'', ''C'']"
    using abc within by blast
  have two: "updated_history ''e21'' full_history = ''e21'' # butlast full_history"
    using full facts by blast
  have three: "distinct (updated_history ''e21'' full_history)"
    using full facts by blast
  have four: "last (''e21'' # butlast full_history) = ''e19''"
    by (simp add: full_history_def)
  have first: "fst (addToHistory ?env ''B'' example_world) = Inr [''B'', ''A'', ''C'']"
    "storage (snd (addToHistory ?env ''B'' example_world))
       = Some (Json_array [''B'', ''A'', ''C''])"
    unfolding one by simp_all
  show ?thesis
    using first inv0 inv1 same_length two three four facts(3) by simp
qed

section \<open>History filter\<close>








section \<open>Interaction controller: submission\<close>

lemma gatherContext_run:
  "gatherContext env w = (Inr (probe_context env), w\<lparr>trace := trace w @ probe_events env\<rparr>)"
  by (simp add: gatherContext_def probe_context_def probe_events_def runAppleScript_def
        io_bind_def io_then_def io_return_def emit_def blank_world_def)

lemma probe_events_no_delivery: "\<not> list_ex is_delivery (probe_events env)"
  by (simp add: gatherContext_def probe_events_def runAppleScript_def
        io_bind_def io_then_def io_return_def emit_def blank_world_def)

lemma probe_events_no_storage_call: "\<not> list_ex is_storage_call (probe_events env)"
  by (simp add: gatherContext_def probe_events_def runAppleScript_def
        io_bind_def io_then_def io_return_def emit_def blank_world_def)

text \<open>The \<open>try\<close> block up to the test of the command, when the client is built and the
  backend answers with at least one content block.\<close>

lemma generateCommand_try_prefix:
  assumes "client_fails env = None" and "create_result env = Inr (b # rest)"
  shows "generateCommand_try env prompt copyOnly w =
     (let w1 = w\<lparr>trace := trace w @ NewClient # probe_events env
                  @ [MessagesCreate (buildPrompt prompt (probe_context env))]\<rparr>
      in if block_command b = []
         then io_then (showToast Failure ''No command generated'' None) (setIsLoading False) w1
         else io_bind (addToHistory env prompt)
          (\<lambda>updatedHistory.
           io_then (setHistory updatedHistory)
          (io_then (call CloseMainWindow (closeMainWindow_fails env))
          (if copyOnly
           then io_then (call (Clipboard_copy (block_command b)) (copy_fails env))
                  (call (ShowHUD ''Command copied'') (showHUD_fails env))
           else io_then (call (Clipboard_paste (block_command b)) (paste_fails env))
                  (call (ShowHUD ''Command pasted'') (showHUD_fails env))))) w1)"
  using assms
  by (simp add: generateCommand_try_def gatherContext_run messages_create_def first_command_def
        io_bind_def io_then_def io_return_def emit_def call_def Let_def)

lemma write_failure_run:
  assumes "trim prompt \<noteq> []" and "client_fails env = None"
    and "create_result env = Inr (b # rest)" and "block_command b \<noteq> []"
    and "fst (getHistory env w) = Inr h" and "setItem_fails env = Some e"
  shows "generateCommand env prompt copyOnly w =
           w\<lparr>isLoading := False,
             trace := trace w @ NewClient # probe_events env
               @ [MessagesCreate (buildPrompt prompt (probe_context env)),
                  LocalStorage_getItem, LocalStorage_setItem (updated_history prompt h),
                  ShowToast Failure ''Error'' (Some (errorMessage e))]\<rparr>"
proof -
  let ?w1 = "w\<lparr>isLoading := True, trace := trace w @ NewClient # probe_events env
                  @ [MessagesCreate (buildPrompt prompt (probe_context env))]\<rparr>"
  have "fst (getHistory env ?w1) = Inr h"
    using assms(5) getHistory_value[of ?w1 w env] by simp
  then have add: "addToHistory env prompt ?w1 =
      (Inl e, ?w1\<lparr>trace := trace ?w1
         @ [LocalStorage_getItem, LocalStorage_setItem (updated_history prompt h)]\<rparr>)"
    using addToHistory_run[of env ?w1 h prompt] assms(6) by simp
  show ?thesis
    using assms(1-4) add
    by (simp add: generateCommand_def generateCommand_try_prefix io_defs)
qed

lemma example_probe:
  "probe_context example_env =
     \<lparr>selectedText = None, currentApp = Some ''Terminal'',
      currentDirectory = Some ''~/project''\<rparr>"
  "probe_events example_env =
     [GetSelectedText, ExecSync AppScript, ExecSync TerminalTitleScript,
      ExecSync TerminalWindowScript]"
  by (simp_all add: probe_context_def probe_events_def gatherContext_def runAppleScript_def
        io_defs example_env_def blank_world_def trim_def is_white_space_def NL_def)

lemma example_facts:
  "trim ''list files'' \<noteq> []"
  "client_fails example_env = None"
  "create_result example_env = Inr (TextBlock ('' ls -la'' @ [NL]) # [])"
  "block_command (TextBlock ('' ls -la'' @ [NL])) = ''ls -la''"
  "fst (getHistory example_env example_world) = Inr [''A'', ''B'', ''C'']"
  "setItem_fails example_env = Some (Error_thrown ''Storage write failed'')"
  by (simp_all add: example_env_def example_world_def trim_def is_white_space_def NL_def
        getHistory_def getItem_def io_defs)

text \<open>
  Claim C3, as the code has it. When the request is not blank, the backend answers with
  a command that is not empty, the stored history is read, and the write of the updated
  history throws \<open>e\<close>, the run ends in the \<open>catch\<close> block: after the probes, the backend
  call and the two storage calls, the only further call is the failure toast with the
  message of \<open>e\<close>; \<open>isLoading\<close> is cleared, the cached history and the stored item are
  as before, the window is not closed and the command is neither pasted nor copied.
\<close>

theorem generateCommand_write_failure:
  assumes "trim prompt \<noteq> []" and "client_fails env = None"
    and "create_result env = Inr (b # rest)" and "block_command b \<noteq> []"
    and "fst (getHistory env w) = Inr h" and "setItem_fails env = Some e"
  shows "generateCommand env prompt copyOnly w =
           w\<lparr>isLoading := False,
             trace := trace w @ NewClient # probe_events env
               @ [MessagesCreate (buildPrompt prompt (probe_context env)),
                  LocalStorage_getItem, LocalStorage_setItem (updated_history prompt h),
                  ShowToast Failure ''Error'' (Some (errorMessage e))]\<rparr>
         \<and> history (generateCommand env prompt copyOnly w) = history w
         \<and> storage (generateCommand env prompt copyOnly w) = storage w
         \<and> list_ex is_failure_toast (events_since w (generateCommand env prompt copyOnly w))
         \<and> \<not> list_ex is_delivery (events_since w (generateCommand env prompt copyOnly w))"
  unfolding write_failure_run[OF assms] using probe_events_no_delivery[of env]
  by (simp add: events_since_def)

text \<open>The theorem at the concrete run, for the paste action.\<close>

theorem generateCommand_write_failure_witness:
  "generateCommand example_env ''list files'' False example_world =
     example_world\<lparr>isLoading := False,
       trace := [NewClient, GetSelectedText, ExecSync AppScript, ExecSync TerminalTitleScript,
         ExecSync TerminalWindowScript,
         MessagesCreate (''Context:'' @ [NL] @ ''Current app: Terminal'' @ [NL]
            @ ''Current directory: ~/project'' @ [NL, NL] @ ''Request: list files''),
         LocalStorage_getItem, LocalStorage_setItem [''list files'', ''A'', ''B'', ''C''],
         ShowToast Failure ''Error'' (Some ''Storage write failed'')]\<rparr>"
proof -
  have cmd: "block_command (TextBlock ('' ls -la'' @ [NL])) \<noteq> []"
    unfolding example_facts(4) by simp
  have upd: "updated_history ''list files'' [''A'', ''B'', ''C'']
      = [''list files'', ''A'', ''B'', ''C'']"
    by (simp add: updated_history_def slice_def MAX_HISTORY_def)
  have bp: "buildPrompt ''list files''
       \<lparr>selectedText = None, currentApp = Some ''Terminal'',
        currentDirectory = Some ''~/project''\<rparr>
     = ''Context:'' @ [NL] @ ''Current app: Terminal'' @ [NL]
            @ ''Current directory: ~/project'' @ [NL, NL] @ ''Request: list files''"
    by (simp add: buildPrompt_def buildPrompt_parts_def push_def RELEVANT_APPS_def)
  show ?thesis
    using generateCommand_write_failure
      [OF example_facts(1) example_facts(2) example_facts(3) cmd example_facts(5)
          example_facts(6), of False]
    by (simp add: example_probe upd bp example_world_def)
qed

text \<open>In the concrete run the backend's command is \<open>ls -la\<close> and the write fails; no
  paste and no copy is among the calls, with either action.\<close>

theorem write_failure_no_delivery_counterexample:
  "block_command (TextBlock ('' ls -la'' @ [NL])) = ''ls -la''
   \<and> setItem_fails example_env = Some (Error_thrown ''Storage write failed'')
   \<and> \<not> list_ex is_delivery (trace (generateCommand example_env ''list files'' False example_world))
   \<and> \<not> list_ex is_delivery (trace (generateCommand example_env ''list files'' True example_world))"
proof -
  have cmd: "block_command (TextBlock ('' ls -la'' @ [NL])) \<noteq> []"
    unfolding example_facts(4) by simp
  have "\<not> list_ex is_delivery (trace (generateCommand example_env ''list files'' c example_world))"
    for c
    unfolding write_failure_run
      [OF example_facts(1) example_facts(2) example_facts(3) cmd example_facts(5)
          example_facts(6)]
    by (simp add: example_probe example_world_def)
  then show ?thesis
    using example_facts(4) example_facts(6) by blast
qed

text \<open>
  Claim C4. When the request is not blank, the client is built and the first content
  block of the backend's answer gives an empty command (a text that is empty after
  trimming, or a block that is not text), the run makes the probes and the backend call
  and then only shows the failure toast \<open>No command generated\<close>: \<open>isLoading\<close> is cleared,
  the cached history and the stored item are as before, local storage is not called, and
  nothing is pasted or copied.
\<close>

theorem generateCommand_empty_response:
  assumes "trim prompt \<noteq> []" and "client_fails env = None"
    and "create_result env = Inr (b # rest)" and "block_command b = []"
  shows "generateCommand env prompt copyOnly w =
           w\<lparr>isLoading := False,
             trace := trace w @ NewClient # probe_events env
               @ [MessagesCreate (buildPrompt prompt (probe_context env)),
                  ShowToast Failure ''No command generated'' None]\<rparr>
         \<and> history (generateCommand env prompt copyOnly w) = history w
         \<and> storage (generateCommand env prompt copyOnly w) = storage w
         \<and> \<not> list_ex is_storage_call (events_since w (generateCommand env prompt copyOnly w))
         \<and> \<not> list_ex is_delivery (events_since w (generateCommand env prompt copyOnly w))
         \<and> list_ex is_failure_toast (events_since w (generateCommand env prompt copyOnly w))"
proof -
  have run: "generateCommand env prompt copyOnly w =
           w\<lparr>isLoading := False,
             trace := trace w @ NewClient # probe_events env
               @ [MessagesCreate (buildPrompt prompt (probe_context env)),
                  ShowToast Failure ''No command generated'' None]\<rparr>"
    using assms
    by (simp add: generateCommand_def generateCommand_try_prefix io_defs)
  show ?thesis
    unfolding run using probe_events_no_delivery[of env] probe_events_no_storage_call[of env]
    by (simp add: events_since_def)
qed

text \<open>The theorem at the concrete run with an answer of two spaces.\<close>

theorem generateCommand_empty_response_witness:
  "trace (generateCommand (example_env\<lparr>create_result := Inr [TextBlock ''  '']\<rparr>)
            ''list files'' True example_world)
     = [NewClient, GetSelectedText, ExecSync AppScript, ExecSync TerminalTitleScript,
        ExecSync TerminalWindowScript,
        MessagesCreate (''Context:'' @ [NL] @ ''Current app: Terminal'' @ [NL]
            @ ''Current directory: ~/project'' @ [NL, NL] @ ''Request: list files''),
        ShowToast Failure ''No command generated'' None]
   \<and> history (generateCommand (example_env\<lparr>create_result := Inr [TextBlock ''  '']\<rparr>)
            ''list files'' True example_world) = [''A'', ''B'', ''C'']
   \<and> storage (generateCommand (example_env\<lparr>create_result := Inr [TextBlock ''  '']\<rparr>)
            ''list files'' True example_world) = Some (Json_array [''A'', ''B'', ''C''])"
proof -
  let ?env = "example_env\<lparr>create_result := Inr [TextBlock ''  '']\<rparr>"
  have 1: "client_fails ?env = None" by (simp add: example_env_def)
  have 2: "create_result ?env = Inr (TextBlock ''  '' # [])" by simp
  have 3: "block_command (TextBlock ''  '') = []"
    by (simp add: trim_def is_white_space_def NL_def)
  have ctx: "probe_context ?env =
     \<lparr>selectedText = None, currentApp = Some ''Terminal'',
      currentDirectory = Some ''~/project''\<rparr>"
    by (simp add: probe_context_def gatherContext_def runAppleScript_def
        io_defs example_env_def blank_world_def trim_def is_white_space_def NL_def)
  have evs: "probe_events ?env =
     [GetSelectedText, ExecSync AppScript, ExecSync TerminalTitleScript,
      ExecSync TerminalWindowScript]"
    by (simp add: probe_events_def gatherContext_def runAppleScript_def
        io_defs example_env_def blank_world_def trim_def is_white_space_def NL_def)
  have bp: "buildPrompt ''list files''
       \<lparr>selectedText = None, currentApp = Some ''Terminal'',
        currentDirectory = Some ''~/project''\<rparr>
     = ''Context:'' @ [NL] @ ''Current app: Terminal'' @ [NL]
            @ ''Current directory: ~/project'' @ [NL, NL] @ ''Request: list files''"
    by (simp add: buildPrompt_def buildPrompt_parts_def push_def RELEVANT_APPS_def)
  have run: "generateCommand ?env ''list files'' True example_world =
           example_world\<lparr>isLoading := False,
             trace := trace example_world @ NewClient # probe_events ?env
               @ [MessagesCreate (buildPrompt ''list files'' (probe_context ?env)),
                  ShowToast Failure ''No command generated'' None]\<rparr>"
    using generateCommand_empty_response[OF example_facts(1) 1 2 3, of True example_world]
    by blast
  show ?thesis
    unfolding run by (simp add: ctx evs bp example_world_def)
qed

text \<open>
  Claim C5. When the request text is empty after trimming, \<open>generateCommand\<close> shows the
  failure toast \<open>Please enter a description\<close> and returns: this toast is the only call
  made (no probe, no backend call, no storage call), and the state is otherwise the one
  before; \<open>isLoading\<close> is not set.
\<close>

theorem generateCommand_blank_request:
  assumes "trim prompt = []"
  shows "generateCommand env prompt copyOnly w =
           w\<lparr>trace := trace w @ [ShowToast Failure ''Please enter a description'' None]\<rparr>
         \<and> isLoading (generateCommand env prompt copyOnly w) = isLoading w
         \<and> history (generateCommand env prompt copyOnly w) = history w
         \<and> storage (generateCommand env prompt copyOnly w) = storage w
         \<and> events_since w (generateCommand env prompt copyOnly w)
             = [ShowToast Failure ''Please enter a description'' None]"
  using assms by (simp add: generateCommand_def io_defs events_since_def)

text \<open>The theorem at a request of two spaces and a tab.\<close>

theorem generateCommand_blank_request_witness:
  "trim [CHR '' '', CHR '' '', CHR 0x09] = []
   \<and> generateCommand example_env [CHR '' '', CHR '' '', CHR 0x09] False example_world
       = example_world\<lparr>trace := [ShowToast Failure ''Please enter a description'' None]\<rparr>"
proof -
  have blank: "trim [CHR '' '', CHR '' '', CHR 0x09] = []"
    by (simp add: trim_def is_white_space_def)
  show ?thesis
    using generateCommand_blank_request[OF blank, of example_env False example_world] blank
    by (simp add: example_world_def)
qed

section \<open>Interaction controller: recall\<close>

lemma fold_run_callback_listKey: "listKey (fold run_callback cs w) = listKey w + length cs"
proof (induction cs arbitrary: w)
  case Nil
  then show ?case by simp
next
  case (Cons c cs)
  have "listKey (run_callback c w) = listKey w + 1" by (cases c) simp
  then show ?case using Cons.IH[of "run_callback c w"] by simp
qed

lemma run_callback_keeps:
  "searchText (run_callback c w) = searchText w \<and> isLoading (run_callback c w) = isLoading w
   \<and> history (run_callback c w) = history w \<and> storage (run_callback c w) = storage w
   \<and> trace (run_callback c w) = trace w \<and> timers (run_callback c w) = timers w"
  by (cases c) simp

lemma fold_run_callback_keeps:
  "searchText (fold run_callback cs w) = searchText w
   \<and> isLoading (fold run_callback cs w) = isLoading w
   \<and> history (fold run_callback cs w) = history w
   \<and> storage (fold run_callback cs w) = storage w
   \<and> trace (fold run_callback cs w) = trace w
   \<and> timers (fold run_callback cs w) = timers w"
  by (induction cs arbitrary: w) (simp_all add: run_callback_keeps)

text \<open>
  Claim C6. For every entry, the action "Use Prompt" followed by the run of the pending
  timer callbacks sets the search text to the entry's text and adds one to \<open>listKey\<close>
  (one more than the same timers would give without the action; \<open>listKey + 1\<close> when no
  other callback is pending). It makes no call to the outside, so no request reaches
  the backend; the cached history and the stored item are unchanged, and \<open>isLoading\<close>
  is unchanged, so an idle state stays idle.
\<close>

theorem usePrompt_recall:
  "searchText (run_timers (usePrompt item w)) = item
   \<and> searchText (usePrompt item w) = item
   \<and> listKey (run_timers (usePrompt item w)) = listKey (run_timers w) + 1
   \<and> (timers w = [] \<longrightarrow> listKey (run_timers (usePrompt item w)) = listKey w + 1)
   \<and> history (run_timers (usePrompt item w)) = history w
   \<and> storage (run_timers (usePrompt item w)) = storage w
   \<and> isLoading (run_timers (usePrompt item w)) = isLoading w
   \<and> (\<not> isLoading w \<longrightarrow> \<not> isLoading (run_timers (usePrompt item w)))
   \<and> trace (usePrompt item w) = trace w
   \<and> trace (run_timers (usePrompt item w)) = trace w
   \<and> \<not> list_ex is_backend_call (events_since w (run_timers (usePrompt item w)))"
  by (simp add: run_timers_def usePrompt_def setSearchText_def fold_run_callback_keeps
        fold_run_callback_listKey events_since_def)

text \<open>The theorem at the idle state with three entries, recalling \<open>B\<close>.\<close>

theorem usePrompt_recall_witness:
  "\<not> isLoading example_world \<and> timers example_world = []
   \<and> run_timers (usePrompt ''B'' example_world)
       = example_world\<lparr>searchText := ''B'', listKey := 1\<rparr>"
proof -
  have idle: "\<not> isLoading example_world" "timers example_world = []"
    by (simp_all add: example_world_def)
  have k: "listKey example_world = 0" by (simp add: example_world_def)
  note inst = usePrompt_recall[of "''B''" example_world]
  have "listKey (run_timers (usePrompt ''B'' example_world)) = 1"
    using inst idle k by simp
  moreover have "searchText (run_timers (usePrompt ''B'' example_world)) = ''B''"
    using inst by blast
  moreover have "timers (run_timers (usePrompt ''B'' example_world)) = []"
    by (simp add: run_timers_def fold_run_callback_keeps)
  moreover have "history (run_timers (usePrompt ''B'' example_world)) = history example_world"
    "storage (run_timers (usePrompt ''B'' example_world)) = storage example_world"
    "isLoading (run_timers (usePrompt ''B'' example_world)) = isLoading example_world"
    "trace (run_timers (usePrompt ''B'' example_world)) = trace example_world"
    using inst by blast+
  ultimately have "run_timers (usePrompt ''B'' example_world)
       = example_world\<lparr>searchText := ''B'', listKey := 1\<rparr>"
    using idle(2) by (intro world.equality) simp_all
  then show ?thesis using idle by simp
qed

section \<open>Reading the stored history\<close>

text \<open>
  Claim C9, as the code has it. When the read of the item succeeds, \<open>getHistory\<close>
  returns the empty list for an absent item and for the empty text, and the stored array
  for a text that parses; for a text that \<open>JSON.parse\<close> rejects it throws the
  \<open>SyntaxError\<close>. When the read itself throws, \<open>getHistory\<close> throws the same value. At
  mount an absent item gives the empty cached history, and after a throw the cached
  history is as it was.
\<close>

theorem getHistory_read_outcomes:
  "(getItem_fails env = None \<longrightarrow>
      fst (getHistory env w) =
        (case storage w of
           None \<Rightarrow> Inr []
         | Some Empty_text \<Rightarrow> Inr []
         | Some (Json_array xs) \<Rightarrow> Inr xs
         | Some (Json_malformed m) \<Rightarrow> Inl (Error_thrown m)))
   \<and> (getItem_fails env = Some e \<longrightarrow> fst (getHistory env w) = Inl e)
   \<and> (getItem_fails env = None \<and> storage w = None \<longrightarrow> history (mount env w) = [])
   \<and> ((\<exists>e. fst (getHistory env w) = Inl e) \<longrightarrow> history (mount env w) = history w)"
  by (auto simp: getHistory_def getItem_def mount_def io_defs
        split: option.splits stored_text.splits)

text \<open>The theorem at an absent item, and at a read that throws.\<close>

theorem getHistory_read_outcomes_witness:
  "fst (getHistory example_env (example_world\<lparr>storage := None\<rparr>)) = Inr []
   \<and> history (mount example_env (example_world\<lparr>storage := None\<rparr>)) = []
   \<and> fst (getHistory (example_env\<lparr>getItem_fails := Some Other_thrown\<rparr>) example_world)
       = Inl Other_thrown
   \<and> history (mount (example_env\<lparr>getItem_fails := Some Other_thrown\<rparr>) example_world)
       = [''A'', ''B'', ''C'']"
proof -
  let ?w = "example_world\<lparr>storage := None\<rparr>"
  let ?env = "example_env\<lparr>getItem_fails := Some Other_thrown\<rparr>"
  have ok: "getItem_fails example_env = None" by (simp add: example_env_def)
  have absent: "storage ?w = None" by simp
  have fails: "getItem_fails ?env = Some Other_thrown" by simp
  have h: "history example_world = [''A'', ''B'', ''C'']" by (simp add: example_world_def)
  note a = getHistory_read_outcomes[of example_env ?w Other_thrown]
  note b = getHistory_read_outcomes[of ?env example_world Other_thrown]
  have 1: "fst (getHistory example_env ?w) = Inr []"
    using a ok absent by simp
  have 2: "history (mount example_env ?w) = []"
    using a ok absent by blast
  have 3: "fst (getHistory ?env example_world) = Inl Other_thrown"
    using b fails by blast
  have 4: "history (mount ?env example_world) = history example_world"
    using b 3 by blast
  show ?thesis
    using 1 2 3 4 h by simp
qed

text \<open>A stored text that \<open>JSON.parse\<close> rejects is not read as the empty list:
  \<open>getHistory\<close> throws, and at mount the cached history is not set.\<close>

theorem getHistory_unreadable_counterexample:
  "fst (getHistory example_env
          (example_world\<lparr>storage := Some (Json_malformed ''Unexpected end of JSON input'')\<rparr>))
     = Inl (Error_thrown ''Unexpected end of JSON input'')
   \<and> fst (getHistory example_env
          (example_world\<lparr>storage := Some (Json_malformed ''Unexpected end of JSON input'')\<rparr>))
     \<noteq> Inr []
   \<and> history (mount example_env
          (example_world\<lparr>storage := Some (Json_malformed ''Unexpected end of JSON input'')\<rparr>))
     = [''A'', ''B'', ''C'']"
  by (simp add: getHistory_def getItem_def mount_def io_defs example_env_def example_world_def)

section \<open>The history invariant is kept by every action\<close>

text \<open>A run of the \<open>try\<close> block leaves the cached history and the stored item as they
  were, or sets both to the updated history of what was read.\<close>

lemma generateCommand_try_cases:
  "(history (snd (generateCommand_try env prompt copyOnly w)) = history w
      \<and> storage (snd (generateCommand_try env prompt copyOnly w)) = storage w)
   \<or> (\<exists>h. fst (getHistory env w) = Inr h
      \<and> history (snd (generateCommand_try env prompt copyOnly w)) = updated_history prompt h
      \<and> storage (snd (generateCommand_try env prompt copyOnly w))
          = Some (Json_array (updated_history prompt h)))"
proof (cases "client_fails env")
  case (Some e)
  then show ?thesis by (simp add: generateCommand_try_def io_defs)
next
  case None
  show ?thesis
  proof (cases "create_result env")
    case (Inl e)
    then show ?thesis using None
      by (simp add: generateCommand_try_def gatherContext_run messages_create_def io_defs)
  next
    case (Inr content)
    show ?thesis
    proof (cases content)
      case Nil
      then show ?thesis using None Inr
        by (simp add: generateCommand_try_def gatherContext_run messages_create_def
              first_command_def io_defs)
    next
      case (Cons b rest)
      let ?w1 = "w\<lparr>trace := trace w @ NewClient # probe_events env
                  @ [MessagesCreate (buildPrompt prompt (probe_context env))]\<rparr>"
      note prefix = generateCommand_try_prefix[OF None, of b rest prompt copyOnly w]
      show ?thesis
      proof (cases "block_command b = []")
        case True
        then show ?thesis using prefix Inr Cons by (simp add: io_defs)
      next
        case False
        show ?thesis
        proof (cases "fst (getHistory env w)")
          case (Inl e)
          then have "fst (getHistory env ?w1) = Inl e"
            using getHistory_value[of ?w1 w env] by simp
          then have "getHistory env ?w1 = (Inl e, ?w1\<lparr>trace := trace ?w1 @ [LocalStorage_getItem]\<rparr>)"
            using getHistory_run[of env ?w1] by simp
          then show ?thesis using prefix Inr Cons False
            by (simp add: addToHistory_def io_defs)
        next
          case (Inr h)
          then have "fst (getHistory env ?w1) = Inr h"
            using getHistory_value[of ?w1 w env] by simp
          note add = addToHistory_run[OF this, of prompt]
          show ?thesis
          proof (cases "setItem_fails env")
            case None
            then show ?thesis using prefix \<open>create_result env = Inr content\<close> Cons False add Inr
              by (auto simp: io_defs split: option.splits)
          next
            case (Some e)
            then show ?thesis using prefix \<open>create_result env = Inr content\<close> Cons False add Inr
              by (auto simp: io_defs split: option.splits)
          qed
        qed
      qed
    qed
  qed
qed


lemma generateCommand_try_invariant:
  assumes "history_invariant w"
  shows "history_invariant (snd (generateCommand_try env prompt copyOnly w))"
proof -
  let ?w' = "snd (generateCommand_try env prompt copyOnly w)"
  from generateCommand_try_cases[of env prompt copyOnly w]
  consider "history ?w' = history w \<and> storage ?w' = storage w"
    | h where "fst (getHistory env w) = Inr h" "history ?w' = updated_history prompt h"
        "storage ?w' = Some (Json_array (updated_history prompt h))"
    by blast
  then show ?thesis
  proof cases
    case 1
    then show ?thesis using assms by (simp add: history_invariant_def)
  next
    case 2
    have "bounded_distinct (updated_history prompt h)"
      using getHistory_invariant[OF assms 2(1)] by (rule bounded_distinct_updated)
    then show ?thesis using 2 by (simp add: history_invariant_def)
  qed
qed

lemma history_invariant_cong:
  "history w' = history w \<Longrightarrow> storage w' = storage w \<Longrightarrow>
   history_invariant w' = history_invariant w"
  by (simp add: history_invariant_def)

lemma generateCommand_invariant:
  assumes "history_invariant w"
  shows "history_invariant (generateCommand env prompt copyOnly w)"
proof (cases "trim prompt = []")
  case True
  then show ?thesis using assms
    by (simp add: generateCommand_def io_defs history_invariant_def)
next
  case False
  have start: "history_invariant (w\<lparr>isLoading := True\<rparr>)"
    using assms by (simp add: history_invariant_def)
  note inv = generateCommand_try_invariant[OF start, of env prompt copyOnly]
  show ?thesis
  proof (cases "generateCommand_try env prompt copyOnly (w\<lparr>isLoading := True\<rparr>)")
    case (Pair r w')
    then have "history_invariant w'" using inv by simp
    then show ?thesis using False Pair
      by (cases r) (simp_all add: generateCommand_def io_defs history_invariant_def)
  qed
qed

lemma mount_invariant:
  assumes "history_invariant w"
  shows "history_invariant (mount env w)"
proof (cases "fst (getHistory env w)")
  case (Inl e)
  then show ?thesis using assms getHistory_run[of env w]
    by (simp add: mount_def io_defs history_invariant_def)
next
  case (Inr h)
  then have "bounded_distinct h" using getHistory_invariant[OF assms] by simp
  then show ?thesis using assms Inr getHistory_run[of env w]
    by (simp add: mount_def io_defs history_invariant_def)
qed

lemma clearHistory_invariant:
  "history_invariant w \<Longrightarrow> history_invariant (clearHistory env w)"
  by (cases "removeItem_fails env")
     (simp_all add: clearHistory_def removeItem_def io_defs history_invariant_def
        bounded_distinct_def)

lemma step_invariant: "history_invariant w \<Longrightarrow> history_invariant (step a w)"
proof (cases a)
  case (Submit env prompt copyOnly)
  assume "history_invariant w"
  then show ?thesis using Submit by (simp add: generateCommand_invariant)
next
  case (Recall item)
  assume "history_invariant w"
  then show ?thesis using Recall
    by (simp add: usePrompt_def setSearchText_def history_invariant_def)
next
  case (Clear env)
  assume "history_invariant w"
  then show ?thesis using Clear by (simp add: clearHistory_invariant)
next
  case (Mount env)
  assume "history_invariant w"
  then show ?thesis using Mount by (simp add: mount_invariant)
next
  case (Edit s)
  assume "history_invariant w"
  then show ?thesis using Edit by (simp add: setSearchText_def history_invariant_def)
next
  case Tick
  assume "history_invariant w"
  then show ?thesis using Tick
    by (simp add: run_timers_def history_invariant_def fold_run_callback_keeps)
qed

lemma run_invariant: "history_invariant w \<Longrightarrow> history_invariant (fold step as w)"
  by (induction as arbitrary: w) (simp_all add: step_invariant)

lemma reachable_history_invariant: "history_invariant (fold step as blank_world)"
  by (rule run_invariant) (simp add: history_invariant_def blank_world_def bounded_distinct_def)

end
